theory Spec2Isabelle
  imports Main "HOL-Library.Word"
begin

section \<open>PravdaPlus: the Gateway and the Transformation service\<close>

text \<open>
  A shallow embedding of \<^verbatim>\<open>services/api/main.py\<close> (the Gateway) and of
  \<^verbatim>\<open>services/transformer/main.py\<close> (the Transformation service).

  Everything the two modules obtain from outside themselves is an explicit argument of the
  model: the outcome of an HTTP call, the XML parser, \<^verbatim>\<open>datetime.strptime\<close>, the clock,
  the MD5 digest and the state of Python's \<^verbatim>\<open>random\<close> module.  A raised exception is a
  value \<open>Inl e\<close> of a sum type, and every \<^verbatim>\<open>try/except\<close> of the source is a case
  distinction on it.

  Text is \<open>string\<close>; the model of \<^verbatim>\<open>str.lower\<close>, \<^verbatim>\<open>str.upper\<close> and \<^verbatim>\<open>str.strip\<close>
  is the one Python has on ASCII text.
\<close>

subsection \<open>Exceptions and HTTP results\<close>

text \<open>
  The exception classes the two modules meet.  All of them are subclasses of Python's
  \<^verbatim>\<open>Exception\<close>, \<^verbatim>\<open>HTTPException\<close> included, so a handler \<^verbatim>\<open>except Exception\<close>
  catches every value of this type.  \<open>OtherError\<close> stands for any further library
  exception (connection failures, decoding errors).
\<close>

datatype exc =
    TimeoutError
  | HTTPException nat string
  | AttributeError
  | ValueError
  | KeyError
  | IndexError
  | TypeError
  | ParseError
  | OtherError string

text \<open>
  What the web framework answers for the outcome of a handler: a returned value is sent
  with status 200, a raised \<^verbatim>\<open>HTTPException\<close> with its own status code, and any other
  exception that leaves the handler with status 500.
\<close>

fun http_status :: "exc + 'a \<Rightarrow> nat" where
  "http_status (Inr v) = 200"
| "http_status (Inl (HTTPException code msg)) = code"
| "http_status (Inl e) = 500"

fun http_detail :: "exc + 'a \<Rightarrow> string option" where
  "http_detail (Inl (HTTPException code msg)) = Some msg"
| "http_detail r = None"

text \<open>Sequencing of computations that may raise.\<close>

definition bindE :: "exc + 'a \<Rightarrow> ('a \<Rightarrow> exc + 'b) \<Rightarrow> exc + 'b" where
  "bindE m f = (case m of Inl e \<Rightarrow> Inl e | Inr v \<Rightarrow> f v)"

subsection \<open>Gateway: relaying a transformation request\<close>

text \<open>
  The Gateway's \<^verbatim>\<open>NewsItem\<close>; \<open>'d\<close> is the type of \<^verbatim>\<open>pub_date\<close> (a
  \<^verbatim>\<open>datetime\<close> in the Gateway, a \<^verbatim>\<open>str\<close> in the Transformation service).
\<close>

record 'd news_item =
  title :: string
  description :: string
  link :: string
  pub_date :: 'd
  category :: string

record 'd transform_request =
  article :: "'d news_item"
  style :: string

text \<open>
  The response of the Transformation service as \<^verbatim>\<open>aiohttp\<close> presents it: the status,
  what \<^verbatim>\<open>await response.json()\<close> gives (it may raise) and what
  \<^verbatim>\<open>await response.text()\<close> gives.  \<open>'j\<close> is the type of decoded JSON values.
\<close>

record 'j relay_response =
  relay_status :: nat
  relay_json :: "exc + 'j"
  relay_text :: string

text \<open>
  The body of the \<^verbatim>\<open>try\<close> block of the Gateway's \<^verbatim>\<open>transform_article\<close>.
  \<open>post url payload\<close> is the outcome of \<^verbatim>\<open>session.post(url, json=payload,
  timeout=ClientTimeout(total=60))\<close>: \<open>Inl e\<close> when the call raises (\<open>TimeoutError\<close> when
  it exceeds the 60 seconds), \<open>Inr r\<close> when a response arrives.  \<open>isoformat\<close> stands for
  \<^verbatim>\<open>datetime.isoformat\<close>.
\<close>

definition relay_try ::
  "string \<Rightarrow> ('d \<Rightarrow> string) \<Rightarrow> (string \<Rightarrow> string transform_request \<Rightarrow> exc + 'j relay_response) \<Rightarrow>
   'd transform_request \<Rightarrow> exc + 'j" where
  "relay_try transformer_url isoformat post request =
     (let a = article request;
          article_data = \<lparr>title = title a, description = description a, link = link a,
                          pub_date = isoformat (pub_date a), category = category a\<rparr>;
          payload = \<lparr>article = article_data, style = style request\<rparr>
      in case post (transformer_url @ ''/transform'') payload of
           Inl e \<Rightarrow> Inl e
         | Inr response \<Rightarrow>
             if relay_status response = 200 then relay_json response
             else Inl (HTTPException (relay_status response)
                        (''Transformer service error: '' @ relay_text response)))"

text \<open>
  The handlers of that \<^verbatim>\<open>try\<close> block, in the order of the source:
  \<^verbatim>\<open>except asyncio.TimeoutError\<close> first, then \<^verbatim>\<open>except Exception as e\<close>, which
  catches every other exception, the \<^verbatim>\<open>HTTPException\<close> raised inside the block
  included.  \<open>str_of\<close> stands for Python's \<^verbatim>\<open>str(e)\<close>.
\<close>

definition gateway_transform_article ::
  "string \<Rightarrow> ('d \<Rightarrow> string) \<Rightarrow> (exc \<Rightarrow> string) \<Rightarrow>
   (string \<Rightarrow> string transform_request \<Rightarrow> exc + 'j relay_response) \<Rightarrow>
   'd transform_request \<Rightarrow> exc + 'j" where
  "gateway_transform_article transformer_url isoformat str_of post request =
     (case relay_try transformer_url isoformat post request of
        Inr result \<Rightarrow> Inr result
      | Inl TimeoutError \<Rightarrow> Inl (HTTPException 504 ''Transformer service timeout'')
      | Inl e \<Rightarrow> Inl (HTTPException 500 (''Transformation failed: '' @ str_of e)))"

subsection \<open>Python strings and lists\<close>

text \<open>
  \<^verbatim>\<open>str.strip()\<close>: the characters Python removes at both ends of ASCII text are the
  code points 9 to 13, 28 to 31 and 32.
\<close>

definition is_space :: "char \<Rightarrow> bool" where
  "is_space c = (let n = (of_char c :: nat) in (9 \<le> n \<and> n \<le> 13) \<or> (28 \<le> n \<and> n \<le> 32))"

fun rstrip :: "string \<Rightarrow> string" where
  "rstrip [] = []"
| "rstrip (c # cs) =
     (case rstrip cs of
        [] \<Rightarrow> if is_space c then [] else [c]
      | r # rs \<Rightarrow> c # r # rs)"

definition strip :: "string \<Rightarrow> string" where
  "strip s = rstrip (dropWhile is_space s)"

text \<open>
  The slice \<^verbatim>\<open>xs[:n]\<close>: the first \<open>n\<close> elements when \<open>n\<close> is not negative, and all
  but the last \<open>-n\<close> elements when it is.
\<close>

definition slice_upto :: "int \<Rightarrow> 'a list \<Rightarrow> 'a list" where
  "slice_upto n xs = (if 0 \<le> n then take (nat n) xs else take (length xs - nat (- n)) xs)"

subsection \<open>Gateway: fetching and parsing a feed\<close>

text \<open>
  An element of an \<^verbatim>\<open>xml.etree.ElementTree\<close> document: its tag, its text
  (\<^verbatim>\<open>None\<close> when the element has no text before its first child or its end) and its
  children in document order.
\<close>

datatype xml = Element (elem_tag: string) (elem_text: "string option") (elem_children: "xml list")

fun descendants :: "xml \<Rightarrow> xml list" where
  "descendants (Element t x cs) = concat (map (\<lambda>c. c # descendants c) cs)"

text \<open>\<^verbatim>\<open>root.findall(".//" + t)\<close>: the descendants with tag \<open>t\<close>, in document order.\<close>

definition findall :: "xml \<Rightarrow> string \<Rightarrow> xml list" where
  "findall root t = filter (\<lambda>e. elem_tag e = t) (descendants root)"

text \<open>\<^verbatim>\<open>item.find(t)\<close>: the first child with tag \<open>t\<close>, or \<^verbatim>\<open>None\<close>.\<close>

definition find_child :: "xml \<Rightarrow> string \<Rightarrow> xml option" where
  "find_child e t = List.find (\<lambda>c. elem_tag c = t) (elem_children e)"

text \<open>
  What a feed source answers: the status and what \<^verbatim>\<open>await response.text()\<close> gives.
\<close>

record feed_response =
  feed_status :: nat
  feed_text :: "exc + string"

text \<open>
  The environment of the Gateway: \<open>http_get url\<close> is the outcome of
  \<^verbatim>\<open>session.get(url, timeout=ClientTimeout(total=30))\<close> (\<open>Inl e\<close> when it raises),
  \<open>fromstring\<close> is \<^verbatim>\<open>ET.fromstring\<close>, \<open>strptime\<close> is \<^verbatim>\<open>datetime.strptime\<close> and
  \<open>now\<close> is the reading of \<^verbatim>\<open>datetime.now()\<close>.
\<close>

record 'd gateway_env =
  http_get :: "string \<Rightarrow> exc + feed_response"
  fromstring :: "string \<Rightarrow> exc + xml"
  strptime :: "string \<Rightarrow> string \<Rightarrow> exc + 'd"
  now :: 'd

definition date_format :: string where
  "date_format = ''%a, %d %b %Y %H:%M:%S''"

text \<open>
  \<^verbatim>\<open>parsed_date\<close>: \<^verbatim>\<open>datetime.strptime(date_str[:25], ...) if date_str else
  datetime.now()\<close>, inside a \<^verbatim>\<open>try\<close> whose bare \<^verbatim>\<open>except\<close> gives
  \<^verbatim>\<open>datetime.now()\<close>.  \<^verbatim>\<open>None\<close> and the empty string are both false.
\<close>

definition parse_pub_date :: "'d gateway_env \<Rightarrow> string option \<Rightarrow> 'd" where
  "parse_pub_date W date_str =
     (case date_str of
        None \<Rightarrow> now W
      | Some s \<Rightarrow>
          if s = [] then now W
          else (case strptime W (take 25 s) date_format of
                  Inr d \<Rightarrow> d
                | Inl e \<Rightarrow> now W))"

text \<open>\<^verbatim>\<open>e.text.strip()\<close>: an \<^verbatim>\<open>AttributeError\<close> when the text is \<^verbatim>\<open>None\<close>.\<close>

definition text_strip :: "xml \<Rightarrow> exc + string" where
  "text_strip e = (case elem_text e of None \<Rightarrow> Inl AttributeError | Some s \<Rightarrow> Inr (strip s))"

text \<open>
  The body of the \<^verbatim>\<open>for item in items[:max_articles]\<close> loop: \<open>Inr None\<close> when the
  item is skipped, \<open>Inr (Some a)\<close> when \<open>a\<close> is appended, \<open>Inl e\<close> when the body raises.
\<close>

definition feed_item :: "'d gateway_env \<Rightarrow> string \<Rightarrow> xml \<Rightarrow> exc + 'd news_item option" where
  "feed_item W cat item =
     (case find_child item ''title'' of
        None \<Rightarrow> Inr None
      | Some t \<Rightarrow>
     (case find_child item ''description'' of
        None \<Rightarrow> Inr None
      | Some d \<Rightarrow>
     (case find_child item ''link'' of
        None \<Rightarrow> Inr None
      | Some l \<Rightarrow>
          (let date_str = (case find_child item ''pubDate'' of None \<Rightarrow> None | Some p \<Rightarrow> elem_text p);
               parsed_date = parse_pub_date W date_str
           in bindE (text_strip t) (\<lambda>title_text.
              bindE (text_strip d) (\<lambda>description_text.
              bindE (text_strip l) (\<lambda>link_text.
                Inr (Some \<lparr>title = title_text, description = description_text, link = link_text,
                            pub_date = parsed_date, category = cat\<rparr>))))))))"

fun feed_loop :: "'d gateway_env \<Rightarrow> string \<Rightarrow> xml list \<Rightarrow> 'd news_item list \<Rightarrow> exc + 'd news_item list" where
  "feed_loop W cat [] articles = Inr articles"
| "feed_loop W cat (item # items) articles =
     (case feed_item W cat item of
        Inl e \<Rightarrow> Inl e
      | Inr None \<Rightarrow> feed_loop W cat items articles
      | Inr (Some a) \<Rightarrow> feed_loop W cat items (articles @ [a]))"

text \<open>The body of the \<^verbatim>\<open>try\<close> block of \<^verbatim>\<open>fetch_bbc_feed\<close>.\<close>

definition fetch_try :: "'d gateway_env \<Rightarrow> string \<Rightarrow> string \<Rightarrow> int \<Rightarrow> exc + 'd news_item list" where
  "fetch_try W cat feed_url max_articles =
     bindE (http_get W feed_url) (\<lambda>response.
       if feed_status response \<noteq> 200 then Inr []
       else bindE (feed_text response) (\<lambda>xml_content.
            bindE (fromstring W xml_content) (\<lambda>root.
              feed_loop W cat (slice_upto max_articles (findall root ''item'')) [])))"

text \<open>\<^verbatim>\<open>fetch_bbc_feed\<close>: the handler \<^verbatim>\<open>except Exception\<close> returns the empty list.\<close>

definition fetch_bbc_feed :: "'d gateway_env \<Rightarrow> string \<Rightarrow> string \<Rightarrow> int \<Rightarrow> 'd news_item list" where
  "fetch_bbc_feed W cat feed_url max_articles =
     (case fetch_try W cat feed_url max_articles of Inl e \<Rightarrow> [] | Inr articles \<Rightarrow> articles)"

text \<open>The dictionary \<^verbatim>\<open>BBC_FEEDS\<close>, in its insertion order.\<close>

definition BBC_FEEDS :: "(string \<times> string) list" where
  "BBC_FEEDS =
     [(''world'', ''http://feeds.bbci.co.uk/news/world/rss.xml''),
      (''uk'', ''http://feeds.bbci.co.uk/news/uk/rss.xml''),
      (''business'', ''http://feeds.bbci.co.uk/news/business/rss.xml''),
      (''technology'', ''http://feeds.bbci.co.uk/news/technology/rss.xml''),
      (''health'', ''http://feeds.bbci.co.uk/news/health/rss.xml'')]"

text \<open>
  \<^verbatim>\<open>GET /news/{category}\<close>.  The query parameter \<^verbatim>\<open>limit\<close> is \<open>None\<close> when the
  request does not give it; its default is 10.
\<close>

definition get_news_by_category ::
  "'d gateway_env \<Rightarrow> string \<Rightarrow> int option \<Rightarrow> exc + 'd news_item list" where
  "get_news_by_category W cat limit_param =
     (let limit = (case limit_param of None \<Rightarrow> 10 | Some n \<Rightarrow> n)
      in case map_of BBC_FEEDS cat of
           None \<Rightarrow> Inl (HTTPException 404 (''Category '' @ [CHR 0x27] @ cat @ [CHR 0x27] @ '' not found''))
         | Some feed_url \<Rightarrow> Inr (fetch_bbc_feed W cat feed_url limit))"

text \<open>
  \<^verbatim>\<open>GET /news\<close>: one fetch per entry of \<^verbatim>\<open>BBC_FEEDS\<close>, gathered in that order and
  zipped with the keys.  The default of \<^verbatim>\<open>limit\<close> is 5.  The returned dictionary is the
  list of its items.
\<close>

definition get_all_news ::
  "'d gateway_env \<Rightarrow> int option \<Rightarrow> (string \<times> 'd news_item list) list" where
  "get_all_news W limit_param =
     (let limit = (case limit_param of None \<Rightarrow> 5 | Some n \<Rightarrow> n);
          results = map (\<lambda>(cat, feed_url). fetch_bbc_feed W cat feed_url limit) BBC_FEEDS
      in zip (map fst BBC_FEEDS) results)"

subsection \<open>More of Python's strings\<close>

text \<open>
  \<^verbatim>\<open>str.lower()\<close> and \<^verbatim>\<open>str.upper()\<close> on ASCII text: only the letters \<open>A\<close> to \<open>Z\<close>
  and \<open>a\<close> to \<open>z\<close> change, each to the letter at the same place of the other alphabet.
\<close>

definition ascii_uppercase :: string where
  "ascii_uppercase = ''ABCDEFGHIJKLMNOPQRSTUVWXYZ''"

definition ascii_lowercase :: string where
  "ascii_lowercase = ''abcdefghijklmnopqrstuvwxyz''"

definition lower_char :: "char \<Rightarrow> char" where
  "lower_char c = (case map_of (zip ascii_uppercase ascii_lowercase) c of None \<Rightarrow> c | Some l \<Rightarrow> l)"

definition upper_char :: "char \<Rightarrow> char" where
  "upper_char c = (case map_of (zip ascii_lowercase ascii_uppercase) c of None \<Rightarrow> c | Some u \<Rightarrow> u)"

definition lower :: "string \<Rightarrow> string" where
  "lower s = map lower_char s"

definition upper :: "string \<Rightarrow> string" where
  "upper s = map upper_char s"

text \<open>\<^verbatim>\<open>s.startswith(p)\<close>.\<close>

definition startswith :: "string \<Rightarrow> string \<Rightarrow> bool" where
  "startswith s p = (take (length p) s = p)"

text \<open>\<^verbatim>\<open>sub in s\<close>: \<open>sub\<close> occurs in \<open>s\<close> as a contiguous substring.\<close>

fun contains :: "string \<Rightarrow> string \<Rightarrow> bool" where
  "contains sub [] = (sub = [])"
| "contains sub (c # cs) = (startswith (c # cs) sub \<or> contains sub cs)"

text \<open>
  \<^verbatim>\<open>s.split(sep)\<close> for a separator that is not empty; \<open>cur\<close> is the piece read so far.
  After a separator is found at the head of \<open>c # cs\<close> the scan resumes behind it
  (\<open>drop (length sep - 1) cs\<close> is \<open>drop (length sep) (c # cs)\<close>).
\<close>

fun split_from :: "string \<Rightarrow> string \<Rightarrow> string \<Rightarrow> string list" where
  "split_from sep cur [] = [cur]"
| "split_from sep cur (c # cs) =
     (if sep \<noteq> [] \<and> startswith (c # cs) sep
      then cur # split_from sep [] (drop (length sep - 1) cs)
      else split_from sep (cur @ [c]) cs)"

definition split :: "string \<Rightarrow> string \<Rightarrow> string list" where
  "split s sep = split_from sep [] s"

text \<open>\<^verbatim>\<open>s.replace(old, "")\<close> for an \<open>old\<close> that is not empty: every occurrence, left to right.\<close>

fun remove_all :: "string \<Rightarrow> string \<Rightarrow> string" where
  "remove_all old [] = []"
| "remove_all old (c # cs) =
     (if old \<noteq> [] \<and> startswith (c # cs) old
      then remove_all old (drop (length old - 1) cs)
      else c # remove_all old cs)"

text \<open>\<^verbatim>\<open>sep.join(xs)\<close>.\<close>

fun join :: "string \<Rightarrow> string list \<Rightarrow> string" where
  "join sep [] = []"
| "join sep [x] = x"
| "join sep (x # y # ys) = x @ sep @ join sep (y # ys)"

text \<open>\<^verbatim>\<open>str(n)\<close> for an integer: its decimal digits.\<close>

fun str_nat :: "nat \<Rightarrow> string" where
  "str_nat n =
     (if n < 10 then [''0123456789'' ! n] else str_nat (n div 10) @ [''0123456789'' ! (n mod 10)])"

definition str_int :: "int \<Rightarrow> string" where
  "str_int i = (if i < 0 then ''-'' @ str_nat (nat (- i)) else str_nat (nat i))"

subsection \<open>The digest and the pseudo-random generator\<close>

text \<open>
  What the fallback generator obtains from Python's library: \<open>md5_digest\<close> is
  \<^verbatim>\<open>hashlib.md5(b).digest()\<close>, the 16 bytes read as one 128-bit number (first byte most
  significant); \<open>seed_state n\<close> is the state \<^verbatim>\<open>random.seed(n)\<close> puts the module's
  generator in; \<open>randbelow g n\<close> is \<^verbatim>\<open>Random._randbelow(n)\<close> in state \<open>g\<close>, with the
  state it leaves.  \<open>'g\<close> is the type of generator states.
\<close>

record 'g runtime =
  md5_digest :: "string \<Rightarrow> 128 word"
  seed_state :: "int \<Rightarrow> 'g"
  randbelow :: "'g \<Rightarrow> nat \<Rightarrow> nat \<times> 'g"

text \<open>
  The contract of \<^verbatim>\<open>_randbelow\<close>: a value below a positive bound.  Theorems that need
  it assume it.
\<close>

definition prng_ok :: "'g runtime \<Rightarrow> bool" where
  "prng_ok R = (\<forall>g n. 0 < n \<longrightarrow> fst (randbelow R g n) < n)"

text \<open>
  \<^verbatim>\<open>random.choice(seq)\<close> is \<^verbatim>\<open>seq[self._randbelow(len(seq))]\<close>; indexing out of range
  (and choosing from an empty sequence) raises \<^verbatim>\<open>IndexError\<close>.
\<close>

definition choice :: "'g runtime \<Rightarrow> 'g \<Rightarrow> 'a list \<Rightarrow> exc + ('a \<times> 'g)" where
  "choice R g xs =
     (if xs = [] then Inl IndexError
      else (let (i, g') = randbelow R g (length xs)
            in if i < length xs then Inr (xs ! i, g') else Inl IndexError))"

text \<open>
  \<^verbatim>\<open>random.randint(a, b)\<close> is \<^verbatim>\<open>randrange(a, b + 1)\<close>, which is
  \<^verbatim>\<open>a + self._randbelow(b + 1 - a)\<close>, and a \<^verbatim>\<open>ValueError\<close> for an empty range.
\<close>

definition randint :: "'g runtime \<Rightarrow> 'g \<Rightarrow> int \<Rightarrow> int \<Rightarrow> exc + (int \<times> 'g)" where
  "randint R g a b =
     (let width = b + 1 - a
      in if 0 < width
         then (let (i, g') = randbelow R g (nat width) in Inr (a + int i, g'))
         else Inl ValueError)"

text \<open>
  \<^verbatim>\<open>hexdigest()\<close>: the 32 lowercase hexadecimal digits of the digest.  \<open>hex_of n x\<close> is
  the last \<open>n\<close> hexadecimal digits of \<open>x\<close>, most significant first.
\<close>

definition hex_digit :: "nat \<Rightarrow> char" where
  "hex_digit d = ''0123456789abcdef'' ! d"

fun hex_of :: "nat \<Rightarrow> nat \<Rightarrow> string" where
  "hex_of 0 x = []"
| "hex_of (Suc n) x = hex_of n (x div 16) @ [hex_digit (x mod 16)]"

definition hexdigest :: "128 word \<Rightarrow> string" where
  "hexdigest w = hex_of 32 (unat w)"

text \<open>
  \<^verbatim>\<open>int(s, 16)\<close> on a string of hexadecimal digits; a \<^verbatim>\<open>ValueError\<close> for the empty
  string and for any other character.  (Python also accepts a sign, a \<^verbatim>\<open>0x\<close> prefix,
  underscores and surrounding blanks; \<^verbatim>\<open>hexdigest\<close> produces none of them.)
\<close>

definition digit_value :: "char \<Rightarrow> nat option" where
  "digit_value c =
     (let n = (of_char c :: nat)
      in if 48 \<le> n \<and> n \<le> 57 then Some (n - 48)
         else if 97 \<le> n \<and> n \<le> 102 then Some (n - 87)
         else if 65 \<le> n \<and> n \<le> 70 then Some (n - 55)
         else None)"

fun parse_hex :: "nat \<Rightarrow> string \<Rightarrow> nat option" where
  "parse_hex acc [] = Some acc"
| "parse_hex acc (c # cs) =
     (case digit_value c of None \<Rightarrow> None | Some d \<Rightarrow> parse_hex (16 * acc + d) cs)"

definition int_base16 :: "string \<Rightarrow> exc + int" where
  "int_base16 s =
     (if s = [] then Inl ValueError
      else (case parse_hex 0 s of None \<Rightarrow> Inl ValueError | Some n \<Rightarrow> Inr (int n)))"

text \<open>The number made of the 32 most significant bits of a digest.\<close>

definition top32 :: "128 word \<Rightarrow> int" where
  "top32 w = int (unat w div 2 ^ 96)"

text \<open>\<^verbatim>\<open>title.encode()\<close>: the UTF-8 bytes of ASCII text are the text itself.\<close>

definition encode :: "string \<Rightarrow> string" where
  "encode s = s"

text \<open>
  \<^verbatim>\<open>seed = int(hashlib.md5(article.title.encode()).hexdigest()[:8], 16)\<close>.
\<close>

definition title_seed :: "'g runtime \<Rightarrow> string \<Rightarrow> exc + int" where
  "title_seed R t = int_base16 (take 8 (hexdigest (md5_digest R (encode t))))"

subsection \<open>Transformation service: the fallback generator\<close>

definition satirical_angles :: "string list" where
  "satirical_angles =
     [''Local Area Experts Baffled by Predictable Turn of Events'',
      ''Scientists Discover That Things Continue to Happen, More at 11'',
      ''Breaking: World Still Spinning, Residents Unimpressed'',
      ''Researchers Confirm Reality Still Operating Within Normal Parameters'',
      ''Local Person Shocked to Learn Universe Follows Established Patterns'',
      ''Area Officials Announce That Time Continues Moving Forward'',
      ''Experts Puzzled by Occurrence of Scheduled Event'',
      ''Community Leaders Perplexed by Entirely Foreseeable Development'']"

definition political_headline :: string where
  "political_headline = ''Local Man Discovers Politicians Still Doing Politics, Experts Stunned''"

definition health_headline :: string where
  "health_headline = ''Area Residents Shocked to Learn Bodies Still Require Maintenance''"

definition business_headline :: string where
  "business_headline = ''Money Continues to Exist Despite Public's Best Efforts to Ignore It''"

definition technology_headline :: string where
  "technology_headline = ''Scientists Confirm: Computers Still Computing, Public Bewildered''"

text \<open>
  \<^verbatim>\<open>mock_title\<close>: the \<^verbatim>\<open>if/elif/else\<close> chain of the source, in its order.  Only the
  last branch draws from the generator; the result carries the generator state behind it.
\<close>

definition mock_title :: "'g runtime \<Rightarrow> 'g \<Rightarrow> 'd news_item \<Rightarrow> exc + (string \<times> 'g)" where
  "mock_title R g a =
     (if contains ''trump'' (lower (title a)) \<or> contains ''president'' (lower (title a))
      then Inr (political_headline, g)
      else if contains ''health'' (lower (category a)) \<or> contains ''medical'' (lower (title a))
      then Inr (health_headline, g)
      else if contains ''business'' (lower (category a)) \<or> contains ''finance'' (lower (title a))
      then Inr (business_headline, g)
      else if contains ''technology'' (lower (category a))
      then Inr (technology_headline, g)
      else choice R g satirical_angles)"

definition descriptors :: "string list" where
  "descriptors =
     [''startling revelation'', ''shocking development'', ''unprecedented occurrence'',
      ''mind-bending discovery'', ''earth-shattering news'', ''reality-defying event'']"

definition mock_description :: "string \<Rightarrow> string" where
  "mock_description descriptor =
     ''In a '' @ descriptor @
     '' that has left experts frantically updating their textbooks, recent events have '' @
     ''confirmed what many suspected all along: things continue to happen in the world.''"

definition expert_names :: "string list" where
  "expert_names =
     [''Dr. Sarah Mitchell'', ''Professor Bob Thompson'', ''Dr. Jennifer Walsh'',
      ''Professor Mike Stevens'', ''Dr. Lisa Chen'', ''Professor David Kumar'']"

definition institutions :: "string list" where
  "institutions =
     [''University of Common Sense'', ''Institute of Obvious Studies'',
      ''College of Predictable Outcomes'', ''Academy of Expected Results'']"

definition resident_names :: "string list" where
  "resident_names =
     [''Karen Johnson'', ''Mike Davis'', ''Jennifer Smith'', ''Bob Wilson'', ''Sarah Brown'',
      ''Tom Anderson'']"

text \<open>
  The scenario, the expert's quote and the resident's quote: the second
  \<^verbatim>\<open>if/elif/else\<close> chain, on the lowercased category only.
\<close>

definition scenario_triple :: "'d news_item \<Rightarrow> string \<times> string \<times> string" where
  "scenario_triple a =
     (if contains ''technology'' (lower (category a)) then
        (''the latest technological development continues to perplex humanity'',
         ''We've been studying human-computer interaction for decades, and yet people still '' @
         ''act surprised when technology does exactly what it was designed to do.'',
         ''I had no idea that pressing buttons would make things happen on screens.'')
      else if contains ''health'' (lower (category a)) then
        (''people are discovering that their bodies still require basic maintenance'',
         ''After years of research, we've confirmed that the human body continues to '' @
         ''function according to established biological principles.'',
         ''Who could have predicted that what I eat and how much I exercise would affect '' @
         ''my health?'')
      else if contains ''business'' (lower (category a)) then
        (''economic principles continue to operate as economists predicted'',
         ''Our extensive research has revealed that supply, demand, and market forces are '' @
         ''still functioning exactly as textbooks describe.'',
         ''I'm shocked to learn that businesses exist to make money.'')
      else
        (''current events continue to unfold in a logical sequence'',
         ''We've been observing cause-and-effect relationships for years, yet people remain '' @
         ''surprised when actions have consequences.'',
         ''I had no idea that today would be followed by tomorrow.''))"

text \<open>The template of \<^verbatim>\<open>mock_content\<close>, stripped as the \<^verbatim>\<open>return\<close> statement does.\<close>

definition mock_content ::
  "string \<Rightarrow> string \<Rightarrow> string \<Rightarrow> string \<Rightarrow> string \<Rightarrow> string \<Rightarrow> int \<Rightarrow> string \<Rightarrow> string" where
  "mock_content category_upper institution scenario expert expert_quote resident resident_age
       resident_quote =
     strip (concat
      [
       [CHR 0x0A], category_upper, '' - In a development that has left researchers at the '',
       institution, '' scrambling to update their '', [CHR 0x22],
       ''Encyclopedia of Predictable Outcomes,'', [CHR 0x22],
       '' recent events have confirmed that '', scenario, ''.'', [CHR 0x0A], [CHR 0x0A],
       expert, '', Professor of Stating the Obvious at '', institution,
       '', expressed measured bewilderment at the public's reaction: '', [CHR 0x22],
       expert_quote, '' It's like being surprised that gravity makes things fall down.'',
       [CHR 0x22], [CHR 0x0A], [CHR 0x0A],
       ''The discovery came after extensive research involving careful observation '',
       ''of reality and occasionally checking the news. '', [CHR 0x22],
       ''The evidence was overwhelming,'', [CHR 0x22],
       '' said lead researcher Dr. Amanda Foster, who spent nearly four minutes '',
       ''analyzing the situation before reaching her groundbreaking conclusion.'', [CHR 0x0A],
       [CHR 0x0A], ''Local resident '', resident, '', '', str_int resident_age,
       '', was reportedly '', [CHR 0x22], ''stunned'', [CHR 0x22], '' by this revelation. '',
       [CHR 0x22], resident_quote, [CHR 0x22],
       '' she said while simultaneously demonstrating a complete understanding '',
       ''of exactly how these things work.'', [CHR 0x0A], [CHR 0x0A],
       ''Meanwhile, experts continue to analyze the situation with the same level '',
       ''of accuracy they've maintained since the invention of expertise. '', [CHR 0x22],
       ''We're confident that things will continue to happen in roughly the order '',
       ''they happen,'', [CHR 0x22],
       '' announced analyst Dr. Patricia Moore, before immediately being proven '',
       ''correct by the passage of time.'', [CHR 0x0A], [CHR 0x0A],
       ''The international community has responded with its customary level of '',
       ''measured confusion, with world leaders issuing statements that can best '',
       ''be summarized as '', [CHR 0x22],
       ''We acknowledge that events occurred and will probably continue occurring.'',
       [CHR 0x22], [CHR 0x0A], [CHR 0x0A],
       ''In related news, the sun rose this morning as scheduled, water remains '',
       ''wet, and people continue to have opinions about things.'', [CHR 0x0A], [CHR 0x0A],
       ''This story is developing, assuming anyone can agree on what 'developing' '',
       ''means when applied to the unstoppable march of causality itself.'', [CHR 0x0A]
      ])"

text \<open>
  The fallback generator behind the choice of the headline: the descriptor, the expert, the
  institution, the resident and the resident's age are drawn in this order, each draw from
  the state the previous one left, and the three fields are assembled.  The result is the
  returned dictionary (the list of its items) and the generator state left behind.
\<close>

definition mock_rest ::
  "'g runtime \<Rightarrow> 'd news_item \<Rightarrow> string \<Rightarrow> 'g \<Rightarrow> exc + ((string \<times> string) list \<times> 'g)" where
  "mock_rest R a headline g1 =
     bindE (choice R g1 descriptors) (\<lambda>(descriptor, g2).
     bindE (choice R g2 expert_names) (\<lambda>(expert, g3).
     bindE (choice R g3 institutions) (\<lambda>(institution, g4).
     bindE (choice R g4 resident_names) (\<lambda>(resident, g5).
     bindE (randint R g5 25 65) (\<lambda>(resident_age, g6).
       (case scenario_triple a of (scenario, expert_quote, resident_quote) \<Rightarrow>
          Inr ([(''title'', headline),
                (''description'', mock_description descriptor),
                (''content'', mock_content (upper (category a)) institution scenario expert
                                expert_quote resident resident_age resident_quote)],
               g6)))))))"

text \<open>
  The branch \<^verbatim>\<open>if not OPENAI_CONFIGURED\<close> of \<^verbatim>\<open>transform_with_openai\<close>.  \<open>g0\<close> is the
  state of the module's generator when the call starts; \<^verbatim>\<open>random.seed(seed)\<close> replaces
  it, and the headline is chosen first.
\<close>

definition mock_transformation ::
  "'g runtime \<Rightarrow> 'g \<Rightarrow> 'd news_item \<Rightarrow> exc + ((string \<times> string) list \<times> 'g)" where
  "mock_transformation R g0 a =
     bindE (title_seed R (title a)) (\<lambda>seed.
     bindE (mock_title R (seed_state R seed) a) (\<lambda>(headline, g1).
       mock_rest R a headline g1))"

subsection \<open>Transformation service: the generation backend\<close>

text \<open>A decoded JSON value; an object is the list of its items.\<close>

datatype json =
    JNull
  | JBool bool
  | JNumber int
  | JString string
  | JArray "json list"
  | JObject "(string \<times> json) list"

text \<open>
  \<^verbatim>\<open>v[k]\<close> for a string \<open>k\<close>, \<^verbatim>\<open>v[0]\<close>, and the first string method called on the
  reply (\<^verbatim>\<open>content.strip()\<close>), with the exceptions Python raises for the other types.
\<close>

fun subscript_key :: "json \<Rightarrow> string \<Rightarrow> exc + json" where
  "subscript_key (JObject kvs) k = (case map_of kvs k of None \<Rightarrow> Inl KeyError | Some v \<Rightarrow> Inr v)"
| "subscript_key v k = Inl TypeError"

fun subscript_0 :: "json \<Rightarrow> exc + json" where
  "subscript_0 (JArray []) = Inl IndexError"
| "subscript_0 (JArray (x # xs)) = Inr x"
| "subscript_0 (JObject kvs) = Inl KeyError"
| "subscript_0 (JString []) = Inl IndexError"
| "subscript_0 (JString (c # cs)) = Inr (JString [c])"
| "subscript_0 v = Inl TypeError"

fun as_text :: "json \<Rightarrow> exc + string" where
  "as_text (JString s) = Inr s"
| "as_text v = Inl AttributeError"

datatype reply_section = TitleSection | DescriptionSection | ContentSection

record parse_state =
  current_section :: "reply_section option"
  transformed_title :: string
  transformed_description :: string
  transformed_content :: string
  content_lines :: "string list"

definition default_title :: string where
  "default_title = ''Breaking: Local News Still Happening, Experts Baffled''"

definition default_description :: string where
  "default_description = ''In a shocking turn of events, things continue to occur in the world.''"

text \<open>One iteration of \<^verbatim>\<open>for line in lines\<close>.\<close>

definition parse_line :: "parse_state \<Rightarrow> string \<Rightarrow> parse_state" where
  "parse_line st line =
     (let line_stripped = strip line
      in if startswith line_stripped ''TITLE:'' then
           st\<lparr>current_section := Some TitleSection,
              transformed_title := strip (remove_all ''TITLE:'' line_stripped)\<rparr>
         else if startswith line_stripped ''DESCRIPTION:'' then
           st\<lparr>current_section := Some DescriptionSection,
              transformed_description := strip (remove_all ''DESCRIPTION:'' line_stripped)\<rparr>
         else if startswith line_stripped ''CONTENT:'' then
           st\<lparr>current_section := Some ContentSection,
              transformed_content := strip (remove_all ''CONTENT:'' line_stripped)\<rparr>
         else if current_section st = Some DescriptionSection \<and> line_stripped \<noteq> []
                 \<and> \<not> startswith line_stripped ''CONTENT:'' then
           st\<lparr>transformed_description := transformed_description st @ '' '' @ line_stripped\<rparr>
         else if current_section st = Some ContentSection \<and> strip line \<noteq> [] then
           st\<lparr>content_lines := content_lines st @ [strip line]\<rparr>
         else st)"

text \<open>
  The parsing of the reply, from \<^verbatim>\<open>lines = content.strip().split('\n')\<close> to the
  \<^verbatim>\<open>return\<close> of the dictionary.  \<^verbatim>\<open>x or y\<close> on strings is \<open>y\<close> when \<open>x\<close> is empty.
\<close>

definition parse_reply :: "string \<Rightarrow> (string \<times> string) list" where
  "parse_reply content =
     (let lines = split (strip content) [CHR 0x0A];
          st1 = foldl parse_line
                  \<lparr>current_section = None, transformed_title = [], transformed_description = [],
                   transformed_content = [], content_lines = []\<rparr> lines;
          st2 = (if content_lines st1 \<noteq> []
                 then st1\<lparr>transformed_content := join [CHR 0x0A] (content_lines st1)\<rparr>
                 else st1);
          st3 = (if transformed_title st2 = [] \<or> transformed_description st2 = [] then
                   (let sections = split content [CHR 0x0A, CHR 0x0A]
                    in if 3 \<le> length sections then
                         st2\<lparr>transformed_title := strip (remove_all ''TITLE:'' (sections ! 0)),
                             transformed_description :=
                               strip (remove_all ''DESCRIPTION:'' (sections ! 1)),
                             transformed_content := strip (remove_all ''CONTENT:'' (sections ! 2))\<rparr>
                       else
                         st2\<lparr>transformed_title := default_title,
                             transformed_description := default_description,
                             transformed_content := strip content\<rparr>)
                 else st2)
      in [(''title'', if transformed_title st3 \<noteq> [] then transformed_title st3 else default_title),
          (''description'',
             if transformed_description st3 \<noteq> [] then transformed_description st3
             else default_description),
          (''content'',
             if transformed_content st3 \<noteq> [] then transformed_content st3 else strip content)])"

text \<open>
  What \<^verbatim>\<open>httpx\<close> presents of the backend's answer: the status and what
  \<^verbatim>\<open>response.json()\<close> gives (it raises on a body that is not JSON).
\<close>

record backend_response =
  status_code :: nat
  response_json :: "exc + json"

text \<open>
  The body of the \<^verbatim>\<open>try\<close> block of \<^verbatim>\<open>transform_with_openai\<close>.  \<open>outcome\<close> is the outcome
  of \<^verbatim>\<open>client.post(..., timeout=30.0)\<close> for the prompt built from the article: \<open>Inl e\<close>
  when the call raises (a timeout, a connection failure).
\<close>

definition backend_try :: "exc + backend_response \<Rightarrow> exc + (string \<times> string) list" where
  "backend_try outcome =
     bindE outcome (\<lambda>response.
       if status_code response \<noteq> 200
       then Inl (HTTPException 500 (''OpenAI API error: '' @ str_nat (status_code response)))
       else bindE (response_json response) (\<lambda>result.
            bindE (subscript_key result ''choices'') (\<lambda>choices.
            bindE (subscript_0 choices) (\<lambda>first_choice.
            bindE (subscript_key first_choice ''message'') (\<lambda>message.
            bindE (subscript_key message ''content'') (\<lambda>content_value.
            bindE (as_text content_value) (\<lambda>content.
              Inr (parse_reply content))))))))"

text \<open>The dictionary returned by the handler \<^verbatim>\<open>except Exception\<close> of that block.\<close>

definition backend_error_article :: "(string \<times> string) list" where
  "backend_error_article =
     [(''title'', ''Local News Event Occurs, Area Residents Moderately Concerned''),
      (''description'',
         ''[AI Transformation temporarily unavailable] Scientists baffled by yet another '' @
         ''thing happening.''),
      (''content'',
         ''BREAKING - In what experts are calling 'a thing that happened,' local events '' @
         ''continue to unfold at the pace of reality itself. More details as they develop, '' @
         ''or don't.'')]"

text \<open>
  \<^verbatim>\<open>OPENAI_CONFIGURED\<close>: the key is present and is not the placeholder.
\<close>

definition openai_configured :: "string \<Rightarrow> bool" where
  "openai_configured openai_api_key =
     (openai_api_key \<noteq> [] \<and> openai_api_key \<noteq> ''sk-your-openai-api-key-here'')"

text \<open>
  \<^verbatim>\<open>transform_with_openai\<close>.  \<open>backend t d\<close> is the outcome of the backend call for the
  prompt that embeds the title \<open>t\<close> and the description \<open>d\<close>; \<open>g\<close> is the state of the
  module's generator, which only the fallback generator changes.  The source does not use
  its \<^verbatim>\<open>style\<close> argument.
\<close>

definition transform_with_openai ::
  "'g runtime \<Rightarrow> bool \<Rightarrow> (string \<Rightarrow> string \<Rightarrow> exc + backend_response) \<Rightarrow> 'g \<Rightarrow>
   'd news_item \<Rightarrow> string \<Rightarrow> exc + ((string \<times> string) list \<times> 'g)" where
  "transform_with_openai R configured backend g a sty =
     (if \<not> configured then mock_transformation R g a
      else (case backend_try (backend (title a) (description a)) of
              Inr t \<Rightarrow> Inr (t, g)
            | Inl e \<Rightarrow> Inr (backend_error_article, g)))"



subsection \<open>Changing the case of letters\<close>



text \<open>
  The field \<open>k\<close> of the dictionary a call returned; \<open>None\<close> when the call raised.
\<close>

definition result_field :: "exc + ((string \<times> string) list \<times> 'g) \<Rightarrow> string \<Rightarrow> string option" where
  "result_field r k = (case r of Inl e \<Rightarrow> None | Inr (d, g) \<Rightarrow> map_of d k)"

subsection \<open>Example inputs\<close>

text \<open>
  Feed items and an environment in which only the \<open>world\<close> feed answers; they are the
  concrete inputs at which the theorems below are instantiated.  Timestamps are seconds.
\<close>

definition feed_entry :: "string \<Rightarrow> string \<Rightarrow> xml" where
  "feed_entry t s = Element t (Some s) []"

definition item_ok :: xml where
  "item_ok = Element ''item'' None
     [feed_entry ''title'' ''Storm hits coast'', feed_entry ''description'' '' Heavy rain '',
      feed_entry ''link'' ''http://x/1'', feed_entry ''pubDate'' ''Mon, 04 Nov 2024 10:00:00 GMT'']"

definition item_blank_title :: xml where
  "item_blank_title = Element ''item'' None
     [feed_entry ''title'' '' '', feed_entry ''description'' ''Heavy rain'',
      feed_entry ''link'' ''http://x/2'']"

definition item_null_title :: xml where
  "item_null_title = Element ''item'' None
     [Element ''title'' None [], feed_entry ''description'' ''Heavy rain'',
      feed_entry ''link'' ''http://x/3'']"

definition item_null_title_no_description :: xml where
  "item_null_title_no_description = Element ''item'' None
     [Element ''title'' None [], feed_entry ''link'' ''http://x/4'']"

definition world_url :: string where
  "world_url = ''http://feeds.bbci.co.uk/news/world/rss.xml''"

definition example_env :: "xml list \<Rightarrow> nat gateway_env" where
  "example_env items =
     \<lparr>http_get = (\<lambda>u. if u = world_url then Inr \<lparr>feed_status = 200, feed_text = Inr ''<rss/>''\<rparr>
                      else Inl (OtherError ''unreachable'')),
      fromstring = (\<lambda>s. if s = ''<rss/>''
                        then Inr (Element ''rss'' None
                               [Element ''channel'' None (feed_entry ''title'' ''BBC News'' # items)])
                        else Inl ParseError),
      strptime = (\<lambda>s f. if s = ''Mon, 04 Nov 2024 10:00:00'' \<and> f = ''%a, %d %b %Y %H:%M:%S''
                        then Inr 1730714400 else Inl ValueError),
      now = 1762286400\<rparr>"


definition item_bad_date :: xml where
  "item_bad_date = Element ''item'' None
     [feed_entry ''title'' ''Markets fall'', feed_entry ''description'' ''Shares slide'',
      feed_entry ''link'' ''http://x/5'', feed_entry ''pubDate'' ''yesterday'']"


text \<open>
  A runtime for the Transformation service: its digest agrees with MD5 on the two titles
  used below, and its generator is a simple one that respects the contract of
  \<^verbatim>\<open>_randbelow\<close>.
\<close>

definition example_runtime :: "nat runtime" where
  "example_runtime =
     \<lparr>md5_digest = (\<lambda>s. if s = ''Rain expected'' then 0x5706e49ed7c5e607d30e50cae32b295f
                        else if s = ''President visits flood zone'' then 0x78c2cbb432cae5a73e47f64935ab0c65
                        else 0),
      seed_state = (\<lambda>n. nat n),
      randbelow = (\<lambda>g n. (g mod n, g div 2 + 1))\<rparr>"

definition example_article :: "string \<Rightarrow> string \<Rightarrow> string news_item" where
  "example_article t c =
     \<lparr>title = t, description = ''Forecasters expect rain.'', link = ''http://x/1'',
      pub_date = ''2024-11-04T10:00:00'', category = c\<rparr>"

section \<open>Properties\<close>

subsection \<open>Gateway: the relay\<close>

text \<open>
  C1 (the part of it the code violates).  A relay call that completes with a non-200
  upstream status does not make the Gateway answer with that status: the
  \<^verbatim>\<open>HTTPException\<close> carrying the upstream status is raised inside the \<^verbatim>\<open>try\<close> block
  and caught by its own \<^verbatim>\<open>except Exception\<close> handler, which raises a new one with
  status 500.  Here the Transformation service answers 503 with body \<open>unavailable\<close>, and
  the Gateway answers 500.
\<close>

theorem gateway_relay_non200_gives_500:
  "http_status (gateway_transform_article url isoformat str_of
      (\<lambda>u p. Inr \<lparr>relay_status = 503, relay_json = Inl ValueError, relay_text = ''unavailable''\<rparr>)
      request) = 500
   \<and> http_detail (gateway_transform_article url isoformat str_of
      (\<lambda>u p. Inr \<lparr>relay_status = 503, relay_json = Inl ValueError, relay_text = ''unavailable''\<rparr>)
      request)
     = Some (''Transformation failed: '' @
             str_of (HTTPException 503 ''Transformer service error: unavailable''))"
  by (simp add: gateway_transform_article_def relay_try_def)

text \<open>
  The same holds for every non-200 upstream status: the answer is 500 whatever the
  upstream status was.  The other half of C1 holds: a relay call that exceeds its bound
  raises \<^verbatim>\<open>asyncio.TimeoutError\<close>, and the Gateway answers 504.
\<close>

lemma gateway_relay_non200_status:
  "post (url @ ''/transform'')
        \<lparr>article = \<lparr>title = title (article request), description = description (article request),
                      link = link (article request), pub_date = isoformat (pub_date (article request)),
                      category = category (article request)\<rparr>,
         style = style request\<rparr> = Inr response \<Longrightarrow>
   relay_status response \<noteq> 200 \<Longrightarrow>
   http_status (gateway_transform_article url isoformat str_of post request) = 500"
  by (simp add: gateway_transform_article_def relay_try_def)

lemma gateway_relay_timeout_status:
  "post (url @ ''/transform'')
        \<lparr>article = \<lparr>title = title (article request), description = description (article request),
                      link = link (article request), pub_date = isoformat (pub_date (article request)),
                      category = category (article request)\<rparr>,
         style = style request\<rparr> = Inl TimeoutError \<Longrightarrow>
   gateway_transform_article url isoformat str_of post request
     = Inl (HTTPException 504 ''Transformer service timeout'')"
  by (simp add: gateway_transform_article_def relay_try_def)

subsection \<open>Gateway: facts about the feed parser\<close>

lemma length_slice_upto: "0 \<le> n \<Longrightarrow> int (length (slice_upto n xs)) \<le> n"
  by (simp add: slice_upto_def)

lemma set_slice_upto: "set (slice_upto n xs) \<subseteq> set xs"
  by (auto simp: slice_upto_def dest: in_set_takeD)


lemma feed_loop_length:
  "feed_loop W cat items acc = Inr out \<Longrightarrow> length out \<le> length acc + length items"
proof (induction items arbitrary: acc)
  case Nil
  then show ?case by simp
next
  case (Cons item items)
  then show ?case
    by (fastforce split: sum.splits option.splits)
qed


lemma feed_loop_raises:
  "item \<in> set items \<Longrightarrow> feed_item W cat item = Inl e \<Longrightarrow> \<exists>e'. feed_loop W cat items acc = Inl e'"
proof (induction items arbitrary: acc)
  case Nil
  then show ?case by simp
next
  case (Cons x items)
  then show ?case
    by (cases "feed_item W cat x") (auto split: option.splits)
qed

lemma fetch_bbc_feed_length:
  "0 \<le> n \<Longrightarrow> int (length (fetch_bbc_feed W cat url n)) \<le> n"
proof -
  assume n: "0 \<le> n"
  show ?thesis
  proof (cases "fetch_try W cat url n")
    case (Inl e)
    with n show ?thesis by (simp add: fetch_bbc_feed_def)
  next
    case (Inr out)
    then have "out = [] \<or> (\<exists>root. feed_loop W cat (slice_upto n (findall root ''item'')) [] = Inr out)"
      by (auto simp: fetch_try_def bindE_def split: sum.splits if_splits)
    then show ?thesis
    proof
      assume "out = []"
      with Inr n show ?thesis by (simp add: fetch_bbc_feed_def)
    next
      assume "\<exists>root. feed_loop W cat (slice_upto n (findall root ''item'')) [] = Inr out"
      then obtain root where "feed_loop W cat (slice_upto n (findall root ''item'')) [] = Inr out" ..
      from feed_loop_length[OF this] have "length out \<le> length (slice_upto n (findall root ''item''))"
        by simp
      with length_slice_upto[OF n, of "findall root ''item''"] Inr show ?thesis
        by (simp add: fetch_bbc_feed_def)
    qed
  qed
qed


lemma fetch_bbc_feed_failed:
  "fetch_try W cat url n = Inl e \<Longrightarrow> fetch_bbc_feed W cat url n = []"
  by (simp add: fetch_bbc_feed_def)

lemma fetch_bbc_feed_non200:
  "http_get W url = Inr r \<Longrightarrow> feed_status r \<noteq> 200 \<Longrightarrow> fetch_bbc_feed W cat url n = []"
  by (simp add: fetch_bbc_feed_def fetch_try_def bindE_def)

lemma parse_pub_date_http_get:
  "parse_pub_date (W\<lparr>http_get := g\<rparr>) ds = parse_pub_date W ds"
  by (simp add: parse_pub_date_def split: option.split sum.split)

lemma feed_item_http_get:
  "feed_item (W\<lparr>http_get := g\<rparr>) cat item = feed_item W cat item"
  by (simp add: feed_item_def parse_pub_date_http_get split: option.split)

lemma feed_loop_http_get:
  "feed_loop (W\<lparr>http_get := g\<rparr>) cat items acc = feed_loop W cat items acc"
  by (induction items arbitrary: acc) (simp_all add: feed_item_http_get split: sum.split option.split)

lemma fetch_try_http_get:
  "g url = http_get W url \<Longrightarrow>
   fetch_try (W\<lparr>http_get := g\<rparr>) cat url n = fetch_try W cat url n"
  by (simp add: fetch_try_def feed_loop_http_get cong: if_cong)

lemma fetch_bbc_feed_http_get:
  "g url = http_get W url \<Longrightarrow>
   fetch_bbc_feed (W\<lparr>http_get := g\<rparr>) cat url n = fetch_bbc_feed W cat url n"
  by (simp add: fetch_bbc_feed_def fetch_try_http_get)



lemma example_env_sel:
  "http_get (example_env items) u = (if u = world_url then Inr \<lparr>feed_status = 200, feed_text = Inr ''<rss/>''\<rparr>
                      else Inl (OtherError ''unreachable''))"
  "fromstring (example_env items) s = (if s = ''<rss/>''
                        then Inr (Element ''rss'' None
                               [Element ''channel'' None (feed_entry ''title'' ''BBC News'' # items)])
                        else Inl ParseError)"
  "strptime (example_env items) s f = (if s = ''Mon, 04 Nov 2024 10:00:00'' \<and> f = ''%a, %d %b %Y %H:%M:%S''
                        then Inr 1730714400 else Inl ValueError)"
  "now (example_env items) = 1762286400"
  by (simp_all add: example_env_def)

lemmas item_defs = item_ok_def item_blank_title_def item_null_title_def
  item_null_title_no_description_def feed_entry_def
lemmas eval_defs = get_all_news_def get_news_by_category_def BBC_FEEDS_def fetch_bbc_feed_def fetch_try_def bindE_def
  findall_def slice_upto_def feed_item_def find_child_def text_strip_def strip_def is_space_def
  parse_pub_date_def date_format_def example_env_sel world_url_def item_defs

lemma feed_item_raises_AttributeError:
  "feed_item W cat item = Inl e \<Longrightarrow> e = AttributeError"
  by (auto simp: feed_item_def bindE_def text_strip_def split: option.splits)

lemma feed_loop_raises_AttributeError:
  "feed_loop W cat items acc = Inl e \<Longrightarrow> e = AttributeError"
proof (induction items arbitrary: acc)
  case Nil
  then show ?case by simp
next
  case (Cons x items)
  then show ?case
    by (cases "feed_item W cat x") (auto split: option.splits dest: feed_item_raises_AttributeError)
qed

lemma map_of_zip_fst:
  "distinct (map fst kvs) \<Longrightarrow> (k, v) \<in> set kvs \<Longrightarrow>
   map_of (zip (map fst kvs) (map (\<lambda>(c, u). f c u) kvs)) k = Some (f k v)"
proof (induction kvs)
  case Nil
  then show ?case by simp
next
  case (Cons kv kvs)
  then show ?case by (cases kv) force
qed

lemma distinct_BBC_FEEDS: "distinct (map fst BBC_FEEDS)"
  by (simp add: BBC_FEEDS_def)

lemma get_all_news_lookup:
  "(cat, url) \<in> set BBC_FEEDS \<Longrightarrow>
   map_of (get_all_news W lim) cat
     = Some (fetch_bbc_feed W cat url (case lim of None \<Rightarrow> 5 | Some k \<Rightarrow> k))"
  by (simp add: get_all_news_def map_of_zip_fst[OF distinct_BBC_FEEDS])

lemma get_all_news_keys: "map fst (get_all_news W lim) = map fst BBC_FEEDS"
  by (simp add: get_all_news_def)


subsection \<open>Gateway: the news endpoints\<close>

text \<open>
  C4, as amended.  For every configured feed \<open>(cat, url)\<close> and every \<^verbatim>\<open>limit\<close> (\<open>lim\<close>,
  default 5): the mapping returned by \<^verbatim>\<open>GET /news\<close> has exactly the five configured
  keys; the entry of \<open>cat\<close> exists and has at most \<^verbatim>\<open>limit\<close> items when \<^verbatim>\<open>limit\<close>
  is not negative; the entry is the empty list when the fetch of that feed fails (any
  exception inside the \<^verbatim>\<open>try\<close> block, or a status other than 200); and the entry does
  not depend on what the other feed sources answer: replacing the outcomes of all other
  URLs (by failures, for instance) leaves it unchanged.  No exception leaves
  \<^verbatim>\<open>get_all_news\<close>: it is a total function returning the mapping.
\<close>

theorem get_all_news_entries:
  assumes "(cat, url) \<in> set BBC_FEEDS"
  shows "map fst (get_all_news W lim) = [''world'', ''uk'', ''business'', ''technology'', ''health'']
       \<and> (\<exists>articles. map_of (get_all_news W lim) cat = Some articles
            \<and> (0 \<le> (case lim of None \<Rightarrow> 5 | Some k \<Rightarrow> k)
                  \<longrightarrow> int (length articles) \<le> (case lim of None \<Rightarrow> 5 | Some k \<Rightarrow> k))
            \<and> ((\<exists>e. fetch_try W cat url (case lim of None \<Rightarrow> 5 | Some k \<Rightarrow> k) = Inl e)
                  \<longrightarrow> articles = [])
            \<and> (\<forall>r. http_get W url = Inr r \<longrightarrow> feed_status r \<noteq> 200 \<longrightarrow> articles = []))
       \<and> (\<forall>g. g url = http_get W url \<longrightarrow>
              map_of (get_all_news (W\<lparr>http_get := g\<rparr>) lim) cat = map_of (get_all_news W lim) cat)"
proof -
  let ?n = "case lim of None \<Rightarrow> 5 | Some k \<Rightarrow> k"
  have keys: "map fst (get_all_news W lim) = [''world'', ''uk'', ''business'', ''technology'', ''health'']"
    by (simp add: get_all_news_keys) (simp add: BBC_FEEDS_def)
  have look: "map_of (get_all_news W lim) cat = Some (fetch_bbc_feed W cat url ?n)"
    by (rule get_all_news_lookup[OF assms])
  have len: "0 \<le> ?n \<longrightarrow> int (length (fetch_bbc_feed W cat url ?n)) \<le> ?n"
    by (simp add: fetch_bbc_feed_length)
  have fail: "(\<exists>e. fetch_try W cat url ?n = Inl e) \<longrightarrow> fetch_bbc_feed W cat url ?n = []"
    by (auto simp: fetch_bbc_feed_failed)
  have non200: "\<forall>r. http_get W url = Inr r \<longrightarrow> feed_status r \<noteq> 200 \<longrightarrow> fetch_bbc_feed W cat url ?n = []"
    by (simp add: fetch_bbc_feed_non200)
  have indep: "\<forall>g. g url = http_get W url \<longrightarrow>
              map_of (get_all_news (W\<lparr>http_get := g\<rparr>) lim) cat = map_of (get_all_news W lim) cat"
    by (simp add: get_all_news_lookup[OF assms] fetch_bbc_feed_http_get)
  from keys look len fail non200 indep show ?thesis by simp
qed


text \<open>
  The theorem at a concrete environment: only the \<open>world\<close> feed answers (two items), every
  other source is unreachable, and \<^verbatim>\<open>limit\<close> is 1.
\<close>

theorem get_all_news_entries_witness:
  "map fst (get_all_news (example_env [item_ok, item_ok]) (Some 1))
      = [''world'', ''uk'', ''business'', ''technology'', ''health'']
   \<and> map_of (get_all_news (example_env [item_ok, item_ok]) (Some 1)) ''uk'' = Some []
   \<and> (\<exists>articles. map_of (get_all_news (example_env [item_ok, item_ok]) (Some 1)) ''world'' = Some articles
         \<and> length articles \<le> 1)
   \<and> map_of (get_all_news
         ((example_env [item_ok, item_ok])\<lparr>http_get :=
             \<lambda>u. if u = world_url then http_get (example_env [item_ok, item_ok]) u else Inl TimeoutError\<rparr>)
         (Some 1)) ''world''
       = map_of (get_all_news (example_env [item_ok, item_ok]) (Some 1)) ''world''"
proof -
  let ?W = "example_env [item_ok, item_ok]"
  have uk: "(''uk'', ''http://feeds.bbci.co.uk/news/uk/rss.xml'') \<in> set BBC_FEEDS"
    and world: "(''world'', world_url) \<in> set BBC_FEEDS"
    by (simp_all add: BBC_FEEDS_def world_url_def)
  have down: "fetch_try ?W ''uk'' ''http://feeds.bbci.co.uk/news/uk/rss.xml'' 1 = Inl (OtherError ''unreachable'')"
    by (simp add: fetch_try_def bindE_def example_env_sel world_url_def)
  from get_all_news_entries[OF uk, of ?W "Some 1"] down
  have a: "map fst (get_all_news ?W (Some 1)) = [''world'', ''uk'', ''business'', ''technology'', ''health'']"
    and b: "map_of (get_all_news ?W (Some 1)) ''uk'' = Some []"
    by auto
  from get_all_news_entries[OF world, of ?W "Some 1"]
  have c: "\<exists>articles. map_of (get_all_news ?W (Some 1)) ''world'' = Some articles \<and> length articles \<le> 1"
    and d: "map_of (get_all_news (?W\<lparr>http_get := \<lambda>u. if u = world_url then http_get ?W u else Inl TimeoutError\<rparr>)
         (Some 1)) ''world'' = map_of (get_all_news ?W (Some 1)) ''world''"
    by auto
  from a b c d show ?thesis by simp
qed

text \<open>
  C4 as stated fails for a negative \<^verbatim>\<open>limit\<close>: with \<^verbatim>\<open>limit = -1\<close> the slice
  \<^verbatim>\<open>items[:-1]\<close> keeps all but the last item, so a feed of two items gives an entry of
  one item, which is more than \<open>-1\<close>.
\<close>

theorem get_all_news_negative_limit_counterexample:
  "map_of (get_all_news (example_env [item_ok, item_ok]) (Some (- 1))) ''world''
     = Some [\<lparr>title = ''Storm hits coast'', description = ''Heavy rain'', link = ''http://x/1'',
              pub_date = 1730714400, category = ''world''\<rparr>]
   \<and> \<not> int (length [\<lparr>title = ''Storm hits coast'', description = ''Heavy rain'', link = ''http://x/1'',
              pub_date = 1730714400 :: nat, category = ''world''\<rparr>]) \<le> - 1"
  by (simp add: eval_defs)





text \<open>
  C8.  A feed item whose \<^verbatim>\<open>title\<close>, \<^verbatim>\<open>description\<close> and \<^verbatim>\<open>link\<close> elements are
  present and carry text is always appended, whatever its date, and its \<^verbatim>\<open>pub_date\<close> is:
  the current timestamp when there is no \<^verbatim>\<open>pubDate\<close> element or its text is missing or
  empty; otherwise the result of \<^verbatim>\<open>strptime\<close> on exactly the first 25 characters of the
  date text with the format \<^verbatim>\<open>%a, %d %b %Y %H:%M:%S\<close>, and the current timestamp when
  that call raises.
\<close>

theorem feed_item_pub_date:
  assumes "find_child item ''title'' = Some t" and "elem_text t = Some st"
    and "find_child item ''description'' = Some d" and "elem_text d = Some sd"
    and "find_child item ''link'' = Some l" and "elem_text l = Some sl"
  shows "feed_item W cat item =
           Inr (Some \<lparr>title = strip st, description = strip sd, link = strip sl,
                 pub_date =
                   (case find_child item ''pubDate'' of
                      None \<Rightarrow> now W
                    | Some p \<Rightarrow>
                        (case elem_text p of
                           None \<Rightarrow> now W
                         | Some s \<Rightarrow>
                             if s = [] then now W
                             else (case strptime W (take 25 s) ''%a, %d %b %Y %H:%M:%S'' of
                                     Inl e \<Rightarrow> now W
                                   | Inr parsed \<Rightarrow> parsed))),
                 category = cat\<rparr>)"
  using assms
  by (simp add: feed_item_def bindE_def text_strip_def parse_pub_date_def date_format_def
      split: option.split)

text \<open>
  The theorem at three items: a date that parses (the first 25 characters of
  \<open>Mon, 04 Nov 2024 10:00:00 GMT\<close>), a date that does not, and no date at all.
\<close>

theorem feed_item_pub_date_witness:
  "feed_item (example_env []) ''world'' item_ok =
     Inr (Some \<lparr>title = ''Storm hits coast'', description = ''Heavy rain'', link = ''http://x/1'',
                 pub_date = 1730714400, category = ''world''\<rparr>)
   \<and> feed_item (example_env []) ''world'' item_bad_date =
     Inr (Some \<lparr>title = ''Markets fall'', description = ''Shares slide'', link = ''http://x/5'',
                 pub_date = 1762286400, category = ''world''\<rparr>)
   \<and> feed_item (example_env []) ''world'' item_blank_title =
     Inr (Some \<lparr>title = [], description = ''Heavy rain'', link = ''http://x/2'',
                 pub_date = 1762286400, category = ''world''\<rparr>)"
proof -
  have 1: "find_child item_ok ''title'' = Some (feed_entry ''title'' ''Storm hits coast'')"
          "find_child item_ok ''description'' = Some (feed_entry ''description'' '' Heavy rain '')"
          "find_child item_ok ''link'' = Some (feed_entry ''link'' ''http://x/1'')"
          "find_child item_ok ''pubDate'' = Some (feed_entry ''pubDate'' ''Mon, 04 Nov 2024 10:00:00 GMT'')"
    by (simp_all add: find_child_def item_ok_def feed_entry_def)
  have 2: "find_child item_bad_date ''title'' = Some (feed_entry ''title'' ''Markets fall'')"
          "find_child item_bad_date ''description'' = Some (feed_entry ''description'' ''Shares slide'')"
          "find_child item_bad_date ''link'' = Some (feed_entry ''link'' ''http://x/5'')"
          "find_child item_bad_date ''pubDate'' = Some (feed_entry ''pubDate'' ''yesterday'')"
    by (simp_all add: find_child_def item_bad_date_def feed_entry_def)
  have 3: "find_child item_blank_title ''title'' = Some (feed_entry ''title'' '' '')"
          "find_child item_blank_title ''description'' = Some (feed_entry ''description'' ''Heavy rain'')"
          "find_child item_blank_title ''link'' = Some (feed_entry ''link'' ''http://x/2'')"
          "find_child item_blank_title ''pubDate'' = None"
    by (simp_all add: find_child_def item_blank_title_def feed_entry_def)
  have etx: "\<And>t s. elem_text (feed_entry t s) = Some s"
    by (simp add: feed_entry_def)
  show ?thesis
    using feed_item_pub_date[OF 1(1) etx 1(2) etx 1(3) etx, of "example_env []" "''world''"]
          feed_item_pub_date[OF 2(1) etx 2(2) etx 2(3) etx, of "example_env []" "''world''"]
          feed_item_pub_date[OF 3(1) etx 3(2) etx 3(3) etx, of "example_env []" "''world''"]
    by (simp add: 1 2 3 etx example_env_sel strip_def is_space_def)
qed

text \<open>
  C9, as amended.  When the feed is fetched and parsed and some item among
  \<^verbatim>\<open>items[:max_articles]\<close> has all three of its \<^verbatim>\<open>title\<close>, \<^verbatim>\<open>description\<close> and
  \<^verbatim>\<open>link\<close> elements present and one of them without text, the loop raises
  \<^verbatim>\<open>AttributeError\<close> and \<^verbatim>\<open>fetch_bbc_feed\<close> returns the empty list: every item of the
  feed is discarded.
\<close>

theorem fetch_bbc_feed_null_text:
  assumes "http_get W url = Inr r" and "feed_status r = 200" and "feed_text r = Inr content"
    and "fromstring W content = Inr root"
    and "item \<in> set (slice_upto n (findall root ''item''))"
    and "find_child item ''title'' = Some t"
    and "find_child item ''description'' = Some d"
    and "find_child item ''link'' = Some l"
    and "elem_text t = None \<or> elem_text d = None \<or> elem_text l = None"
  shows "fetch_try W cat url n = Inl AttributeError \<and> fetch_bbc_feed W cat url n = []"
proof -
  from assms(6-9) have "feed_item W cat item = Inl AttributeError"
    by (auto simp: feed_item_def bindE_def text_strip_def split: option.splits)
  from feed_loop_raises[OF assms(5) this]
  obtain e where e: "feed_loop W cat (slice_upto n (findall root ''item'')) [] = Inl e"
    by blast
  with feed_loop_raises_AttributeError have "e = AttributeError" by blast
  with e assms(1-4) have "fetch_try W cat url n = Inl AttributeError"
    by (simp add: fetch_try_def bindE_def)
  then show ?thesis by (simp add: fetch_bbc_feed_def)
qed

text \<open>The theorem at a feed whose second item of three has a \<^verbatim>\<open>title\<close> without text.\<close>

theorem fetch_bbc_feed_null_text_witness:
  "fetch_bbc_feed (example_env [item_ok, item_null_title, item_ok]) ''world'' world_url 10 = []"
proof -
  let ?W = "example_env [item_ok, item_null_title, item_ok]"
  have 1: "http_get ?W world_url = Inr \<lparr>feed_status = 200, feed_text = Inr ''<rss/>''\<rparr>"
    by (simp add: example_env_sel)
  have 2: "fromstring ?W ''<rss/>'' = Inr (Element ''rss'' None
             [Element ''channel'' None [feed_entry ''title'' ''BBC News'', item_ok, item_null_title, item_ok]])"
    by (simp add: example_env_sel)
  have 3: "item_null_title \<in> set (slice_upto 10 (findall (Element ''rss'' None
             [Element ''channel'' None [feed_entry ''title'' ''BBC News'', item_ok, item_null_title, item_ok]]) ''item''))"
    by (simp add: slice_upto_def findall_def item_defs)
  have 4: "find_child item_null_title ''title'' = Some (Element ''title'' None [])"
          "find_child item_null_title ''description'' = Some (feed_entry ''description'' ''Heavy rain'')"
          "find_child item_null_title ''link'' = Some (feed_entry ''link'' ''http://x/3'')"
    by (simp_all add: find_child_def item_defs)
  from fetch_bbc_feed_null_text[OF 1 _ _ 2 3 4, of "''world''"] show ?thesis by simp
qed

text \<open>
  C9 as stated fails when the item with the empty element lacks another of the three
  elements: the first item here has a \<^verbatim>\<open>title\<close> element without text and no
  \<^verbatim>\<open>description\<close>, so the guard of the loop skips it before any text is read, and the
  second item is returned.
\<close>

theorem fetch_bbc_feed_null_text_counterexample:
  "find_child item_null_title_no_description ''title'' = Some (Element ''title'' None [])
   \<and> elem_text (Element ''title'' None []) = None
   \<and> fetch_bbc_feed (example_env [item_null_title_no_description, item_ok]) ''world'' world_url 10
     = [\<lparr>title = ''Storm hits coast'', description = ''Heavy rain'', link = ''http://x/1'',
            pub_date = 1730714400, category = ''world''\<rparr>]"
  by (simp add: eval_defs)

subsection \<open>Transformation service: the seed\<close>

lemma digit_value_hex_digit: "d < 16 \<Longrightarrow> digit_value (hex_digit d) = Some d"
proof -
  assume "d < 16"
  then have "d = 0 \<or> d = 1 \<or> d = 2 \<or> d = 3 \<or> d = 4 \<or> d = 5 \<or> d = 6 \<or> d = 7 \<or> d = 8
      \<or> d = 9 \<or> d = 10 \<or> d = 11 \<or> d = 12 \<or> d = 13 \<or> d = 14 \<or> d = 15"
    by arith
  then show ?thesis
    by (auto simp: digit_value_def hex_digit_def)
qed

lemma parse_hex_append:
  "parse_hex acc (s @ t) = (case parse_hex acc s of None \<Rightarrow> None | Some a \<Rightarrow> parse_hex a t)"
  by (induction s arbitrary: acc) (auto split: option.splits)

lemma parse_hex_hex_of: "parse_hex acc (hex_of n x) = Some (acc * 16 ^ n + x mod 16 ^ n)"
proof (induction n arbitrary: x)
  case 0
  then show ?case by simp
next
  case (Suc n)
  have "x mod 16 < 16" by simp
  then have d: "digit_value (hex_digit (x mod 16)) = Some (x mod 16)"
    by (rule digit_value_hex_digit)
  have "x mod (16 * 16 ^ n) = 16 * (x div 16 mod 16 ^ n) + x mod 16"
    by (simp add: mod_mult2_eq)
  with Suc d show ?case
    by (simp add: parse_hex_append algebra_simps)
qed

lemma length_hex_of: "length (hex_of n x) = n"
  by (induction n arbitrary: x) auto

lemma take_hex_of: "take k (hex_of (k + m) x) = hex_of k (x div 16 ^ m)"
proof (induction m arbitrary: x)
  case 0
  then show ?case by (simp add: length_hex_of)
next
  case (Suc m)
  have "take k (hex_of (k + Suc m) x) = take k (hex_of (k + m) (x div 16))"
    by (simp add: length_hex_of)
  also have "\<dots> = hex_of k (x div 16 div 16 ^ m)" by (rule Suc.IH)
  finally show ?case by (simp add: div_mult2_eq)
qed

lemma title_seed_value:
  "title_seed R t = Inr (top32 (md5_digest R (encode t)))"
proof -
  let ?x = "unat (md5_digest R (encode t))"
  have lt: "?x < 2 ^ 128"
    using unsigned_less[of "md5_digest R (encode t)"] by simp
  have tk: "take 8 (hexdigest (md5_digest R (encode t))) = hex_of 8 (?x div 16 ^ 24)"
    using take_hex_of[of 8 24 ?x] by (simp add: hexdigest_def)
  have ne: "hex_of 8 (?x div 16 ^ 24) \<noteq> []"
    using length_hex_of[of 8 "?x div 16 ^ 24"] by auto
  have "(16::nat) ^ 24 = 2 ^ 96" "(16::nat) ^ 8 = 2 ^ 32" by simp_all
  moreover have "?x div 2 ^ 96 < 2 ^ 32"
    using lt by (simp add: less_mult_imp_div_less)
  ultimately have "parse_hex 0 (hex_of 8 (?x div 16 ^ 24)) = Some (?x div 2 ^ 96)"
    by (simp add: parse_hex_hex_of)
  with tk ne show ?thesis
    by (simp add: title_seed_def int_base16_def top32_def)
qed



subsection \<open>Transformation service: letters, substrings and draws\<close>

lemma example_runtime_sel:
  "md5_digest example_runtime s = (if s = ''Rain expected'' then 0x5706e49ed7c5e607d30e50cae32b295f
                        else if s = ''President visits flood zone'' then 0x78c2cbb432cae5a73e47f64935ab0c65
                        else 0)"
  "seed_state example_runtime n = nat n"
  "randbelow example_runtime g k = (g mod k, g div 2 + 1)"
  by (simp_all add: example_runtime_def)

lemma prng_ok_example: "prng_ok example_runtime"
  by (simp add: prng_ok_def example_runtime_sel)





lemma lower_append: "lower (p @ q) = lower p @ lower q"
  by (simp add: lower_def)

lemma startswith_iff: "startswith s p \<longleftrightarrow> (\<exists>q. s = p @ q)"
proof
  assume "startswith s p"
  then have "s = p @ drop (length p) s"
    by (metis append_take_drop_id startswith_def)
  then show "\<exists>q. s = p @ q" ..
next
  assume "\<exists>q. s = p @ q"
  then show "startswith s p" by (auto simp: startswith_def)
qed

lemma contains_iff: "contains sub s \<longleftrightarrow> (\<exists>p q. s = p @ sub @ q)"
proof (induction s)
  case Nil
  then show ?case by auto
next
  case (Cons c cs)
  show ?case
  proof
    assume "contains sub (c # cs)"
    then consider "startswith (c # cs) sub" | "contains sub cs" by auto
    then show "\<exists>p q. c # cs = p @ sub @ q"
    proof cases
      case 1
      then obtain q where "c # cs = sub @ q" by (auto simp: startswith_iff)
      then have "c # cs = [] @ sub @ q" by simp
      then show ?thesis by blast
    next
      case 2
      with Cons.IH obtain p q where "cs = p @ sub @ q" by blast
      then have "c # cs = (c # p) @ sub @ q" by simp
      then show ?thesis by blast
    qed
  next
    assume "\<exists>p q. c # cs = p @ sub @ q"
    then obtain p q where pq: "c # cs = p @ sub @ q" by blast
    show "contains sub (c # cs)"
    proof (cases p)
      case Nil
      with pq have "startswith (c # cs) sub" by (auto simp: startswith_iff)
      then show ?thesis by simp
    next
      case (Cons x p')
      with pq have "cs = p' @ sub @ q" by simp
      with Cons.IH have "contains sub cs" by blast
      then show ?thesis by simp
    qed
  qed
qed

lemma contains_president:
  "t = p @ ''President'' @ q \<Longrightarrow> contains ''president'' (lower t)"
proof -
  assume "t = p @ ''President'' @ q"
  then have "lower t = lower p @ ''president'' @ lower q"
    by (simp add: lower_append) (simp add: lower_def lower_char_def ascii_uppercase_def ascii_lowercase_def)
  then show ?thesis by (auto simp: contains_iff)
qed

lemma choice_ok:
  assumes "prng_ok R" and "xs \<noteq> []"
  shows "\<exists>x g'. choice R g xs = Inr (x, g') \<and> x \<in> set xs"
proof -
  obtain i g' where r: "randbelow R g (length xs) = (i, g')" by (cases "randbelow R g (length xs)")
  from assms have "fst (randbelow R g (length xs)) < length xs"
    by (simp add: prng_ok_def)
  with r have "i < length xs" by simp
  with r assms(2) have "choice R g xs = Inr (xs ! i, g')" "xs ! i \<in> set xs"
    by (simp_all add: choice_def)
  then show ?thesis by blast
qed

lemma randint_ok: "a \<le> b \<Longrightarrow> \<exists>v g'. randint R g a b = Inr (v, g')"
  by (cases "randbelow R g (nat (b + 1 - a))") (simp add: randint_def)

lemma mock_title_ok:
  assumes "prng_ok R"
  shows "\<exists>h g'. mock_title R g a = Inr (h, g')"
proof -
  have "satirical_angles \<noteq> []" by (simp add: satirical_angles_def)
  from choice_ok[OF assms this, of g] show ?thesis
    by (auto simp: mock_title_def)
qed

lemma bindE_eq_Inr: "(bindE m f = Inr y) = (\<exists>v. m = Inr v \<and> f v = Inr y)"
  by (cases m) (simp_all add: bindE_def)

lemma bindE_Inr: "bindE (Inr v) f = f v"
  by (simp add: bindE_def)

lemma mock_rest_ok:
  assumes "prng_ok R"
  shows "\<exists>d g'. mock_rest R a h g1 = Inr (d, g')"
proof -
  obtain x2 g2 where 2: "choice R g1 descriptors = Inr (x2, g2)"
    using choice_ok[OF assms, of descriptors g1] by (auto simp: descriptors_def)
  obtain x3 g3 where 3: "choice R g2 expert_names = Inr (x3, g3)"
    using choice_ok[OF assms, of expert_names g2] by (auto simp: expert_names_def)
  obtain x4 g4 where 4: "choice R g3 institutions = Inr (x4, g4)"
    using choice_ok[OF assms, of institutions g3] by (auto simp: institutions_def)
  obtain x5 g5 where 5: "choice R g4 resident_names = Inr (x5, g5)"
    using choice_ok[OF assms, of resident_names g4] by (auto simp: resident_names_def)
  obtain x6 g6 where 6: "randint R g5 25 65 = Inr (x6, g6)"
    using randint_ok[of 25 65 R g5] by auto
  obtain s e r where 7: "scenario_triple a = (s, e, r)" by (cases "scenario_triple a")
  show ?thesis
    by (simp add: mock_rest_def bindE_Inr 2 3 4 5 6 7)
qed

lemma mock_rest_title:
  assumes "mock_rest R a h g1 = Inr (d, g')"
  shows "map_of d ''title'' = Some h"
proof -
  obtain s e r where "scenario_triple a = (s, e, r)" by (cases "scenario_triple a")
  with assms show ?thesis
    by (auto simp: mock_rest_def bindE_eq_Inr)
qed

lemma mock_transformation_ok:
  assumes "prng_ok R"
  shows "\<exists>d g'. mock_transformation R g0 a = Inr (d, g')"
proof -
  obtain h g1 where 1: "mock_title R (seed_state R (top32 (md5_digest R (encode (title a))))) a = Inr (h, g1)"
    using mock_title_ok[OF assms] by blast
  from mock_rest_ok[OF assms, of a h g1] 1 show ?thesis
    by (simp add: mock_transformation_def title_seed_value bindE_Inr)
qed

lemma mock_transformation_title:
  assumes "mock_transformation R g0 a = Inr (d, g')"
  shows "\<exists>h g1. mock_title R (seed_state R (top32 (md5_digest R (encode (title a))))) a = Inr (h, g1)
            \<and> map_of d ''title'' = Some h"
  using assms
  by (auto simp: mock_transformation_def title_seed_value bindE_Inr bindE_eq_Inr dest: mock_rest_title)

subsection \<open>Transformation service: the fallback generator\<close>




text \<open>
  C2, as amended.  With no usable credential, two calls on articles that have the same
  title and the same category return the same dictionary (title, description and
  content), whatever the other fields of the articles, the style, the state the module's
  generator was in before each call (the same or another process) and the backend.  They
  also leave the generator in the same state.
\<close>

theorem fallback_same_title_same_category:
  assumes "\<not> openai_configured key" and "title a = title b" and "category a = category b"
  shows "transform_with_openai R (openai_configured key) backend1 g1 a sty1
       = transform_with_openai R (openai_configured key) backend2 g2 b sty2"
proof -
  from assms(2,3) have t: "mock_title R g a = mock_title R g b" for g
    by (simp add: mock_title_def)
  from assms(3) have s: "scenario_triple a = scenario_triple b"
    by (simp add: scenario_triple_def)
  from assms(3) s have r: "mock_rest R a h g = mock_rest R b h g" for h g
    by (simp add: mock_rest_def)
  from assms(2) t r have "mock_transformation R g1 a = mock_transformation R g2 b"
    by (simp add: mock_transformation_def)
  with assms(1) show ?thesis
    by (simp add: transform_with_openai_def)
qed


subsection \<open>Transformation service: the endpoint and the headline\<close>

lemmas text_eval = lower_def lower_char_def ascii_uppercase_def ascii_lowercase_def startswith_def

lemma example_article_sel:
  "title (example_article t c) = t" "category (example_article t c) = c"
  "description (example_article t c) = ''Forecasters expect rain.''"
  by (simp_all add: example_article_def)

lemma example_rest:
  "\<exists>d g'. mock_rest example_runtime a h g = Inr (d, g') \<and> map_of d ''title'' = Some h"
proof -
  from mock_rest_ok[OF prng_ok_example, of a h g]
  obtain d g' where r: "mock_rest example_runtime a h g = Inr (d, g')" by blast
  from mock_rest_title[OF r] r show ?thesis by blast
qed

lemma example_title_health:
  "mock_title example_runtime g (example_article ''Rain expected'' ''health'') = Inr (health_headline, g)"
  by (simp add: mock_title_def example_article_sel text_eval)

lemma example_title_technology:
  "mock_title example_runtime g (example_article ''Rain expected'' ''technology'') = Inr (technology_headline, g)"
  by (simp add: mock_title_def example_article_sel text_eval)

lemma result_field_mock:
  "mock_title R (seed_state R (top32 (md5_digest R (encode (title a))))) a = Inr (h, g1) \<Longrightarrow>
   mock_rest R a h g1 = Inr (d, g') \<Longrightarrow> map_of d ''title'' = Some h \<Longrightarrow>
   result_field (transform_with_openai R (openai_configured []) backend g0 a sty) ''title'' = Some h"
  by (simp add: result_field_def transform_with_openai_def openai_configured_def
      mock_transformation_def title_seed_value bindE_Inr)

text \<open>
  C2 as stated fails: the title alone does not fix the output.  Two requests with the title
  \<open>Rain expected\<close>, one of category \<open>health\<close> and one of category \<open>technology\<close>, get
  different transformed titles (the body differs too: it starts with the upper-cased
  category).
\<close>

theorem fallback_same_title_counterexample:
  "result_field (transform_with_openai example_runtime (openai_configured [])
        (\<lambda>t d. Inl TimeoutError) 0 (example_article ''Rain expected'' ''health'') ''satirical'') ''title''
     = Some ''Area Residents Shocked to Learn Bodies Still Require Maintenance''
   \<and> result_field (transform_with_openai example_runtime (openai_configured [])
        (\<lambda>t d. Inl TimeoutError) 0 (example_article ''Rain expected'' ''technology'') ''satirical'') ''title''
     = Some ''Scientists Confirm: Computers Still Computing, Public Bewildered''"
proof -
  obtain d1 g1 where 1: "mock_rest example_runtime (example_article ''Rain expected'' ''health'') health_headline
       (seed_state example_runtime (top32 (md5_digest example_runtime (encode (title (example_article ''Rain expected'' ''health''))))))
       = Inr (d1, g1)" "map_of d1 ''title'' = Some health_headline"
    using example_rest by blast
  obtain d2 g2 where 2: "mock_rest example_runtime (example_article ''Rain expected'' ''technology'') technology_headline
       (seed_state example_runtime (top32 (md5_digest example_runtime (encode (title (example_article ''Rain expected'' ''technology''))))))
       = Inr (d2, g2)" "map_of d2 ''title'' = Some technology_headline"
    using example_rest by blast
  from result_field_mock[OF example_title_health 1] result_field_mock[OF example_title_technology 2]
  show ?thesis by (simp add: health_headline_def technology_headline_def)
qed

text \<open>
  The amended C2 at two requests that share title and category and differ in everything
  else: description, link, date, style, the backend and the prior generator state.
\<close>

theorem fallback_same_title_same_category_witness:
  "transform_with_openai example_runtime (openai_configured []) (\<lambda>t d. Inl TimeoutError) 0
       (example_article ''Rain expected'' ''world'') ''satirical''
   = transform_with_openai example_runtime (openai_configured []) (\<lambda>t d. Inl (OtherError ''down'')) 7
       \<lparr>title = ''Rain expected'', description = ''Umbrellas sell out.'', link = ''http://x/9'',
        pub_date = ''2025-01-01T00:00:00'', category = ''world''\<rparr> ''funny''"
proof -
  have "\<not> openai_configured []" by (simp add: openai_configured_def)
  from fallback_same_title_same_category[OF this, of "example_article ''Rain expected'' ''world''"
      "\<lparr>title = ''Rain expected'', description = ''Umbrellas sell out.'', link = ''http://x/9'',
        pub_date = ''2025-01-01T00:00:00'', category = ''world''\<rparr>"]
  show ?thesis by (simp add: example_article_sel)
qed






text \<open>
  C6.  The headline is chosen by the keyword tests in this order: \<open>trump\<close> or
  \<open>president\<close> in the lowercased title; then \<open>health\<close> in the lowercased category or
  \<open>medical\<close> in the title; then \<open>business\<close> in the category or \<open>finance\<close> in the
  title; then \<open>technology\<close> in the category; otherwise \<^verbatim>\<open>random.choice\<close> over the
  eight generic headlines, which is the headline at the index \<^verbatim>\<open>_randbelow(8)\<close> gives in
  the seeded state.  A title that contains \<open>President\<close> gets the political headline for
  every generator state, hence for every seed and every category, also as the
  \<open>title\<close> field of the generator's result.  (That the index is uniformly distributed
  is a property of Python's generator, which the model takes as a parameter.)
\<close>

theorem mock_title_precedence:
  "(contains ''trump'' (lower (title a)) \<or> contains ''president'' (lower (title a))
      \<longrightarrow> mock_title R g a = Inr (political_headline, g))
   \<and> (\<not> (contains ''trump'' (lower (title a)) \<or> contains ''president'' (lower (title a)))
        \<and> (contains ''health'' (lower (category a)) \<or> contains ''medical'' (lower (title a)))
      \<longrightarrow> mock_title R g a = Inr (health_headline, g))
   \<and> (\<not> (contains ''trump'' (lower (title a)) \<or> contains ''president'' (lower (title a)))
        \<and> \<not> (contains ''health'' (lower (category a)) \<or> contains ''medical'' (lower (title a)))
        \<and> (contains ''business'' (lower (category a)) \<or> contains ''finance'' (lower (title a)))
      \<longrightarrow> mock_title R g a = Inr (business_headline, g))
   \<and> (\<not> (contains ''trump'' (lower (title a)) \<or> contains ''president'' (lower (title a)))
        \<and> \<not> (contains ''health'' (lower (category a)) \<or> contains ''medical'' (lower (title a)))
        \<and> \<not> (contains ''business'' (lower (category a)) \<or> contains ''finance'' (lower (title a)))
        \<and> contains ''technology'' (lower (category a))
      \<longrightarrow> mock_title R g a = Inr (technology_headline, g))
   \<and> (\<not> (contains ''trump'' (lower (title a)) \<or> contains ''president'' (lower (title a)))
        \<and> \<not> (contains ''health'' (lower (category a)) \<or> contains ''medical'' (lower (title a)))
        \<and> \<not> (contains ''business'' (lower (category a)) \<or> contains ''finance'' (lower (title a)))
        \<and> \<not> contains ''technology'' (lower (category a))
      \<longrightarrow> mock_title R g a = choice R g satirical_angles
          \<and> length satirical_angles = 8
          \<and> (prng_ok R \<longrightarrow>
                mock_title R g a
                  = Inr (satirical_angles ! fst (randbelow R g 8), snd (randbelow R g 8))
                \<and> satirical_angles ! fst (randbelow R g 8) \<in> set satirical_angles))
   \<and> (\<forall>p q. title a = p @ ''President'' @ q \<longrightarrow>
          mock_title R g a = Inr (political_headline, g)
          \<and> (\<forall>g0 d g'. mock_transformation R g0 a = Inr (d, g') \<longrightarrow>
                 map_of d ''title'' = Some political_headline)
          \<and> (prng_ok R \<longrightarrow> (\<forall>g0. \<exists>d g'. mock_transformation R g0 a = Inr (d, g'))))"
  (is "?A \<and> ?B \<and> ?C \<and> ?D \<and> ?E \<and> ?F")
proof -
  have a: ?A and b: ?B and c: ?C and d: ?D
    by (simp_all add: mock_title_def)
  have len: "length satirical_angles = 8" by (simp add: satirical_angles_def)
  have draw: "choice R g satirical_angles = Inr (satirical_angles ! fst (randbelow R g 8), snd (randbelow R g 8))
      \<and> satirical_angles ! fst (randbelow R g 8) \<in> set satirical_angles" if ok: "prng_ok R"
  proof -
    from ok have lt: "fst (randbelow R g 8) < 8" by (simp add: prng_ok_def)
    have ne: "satirical_angles \<noteq> []" using len by auto
    from lt len ne have "choice R g satirical_angles
        = Inr (satirical_angles ! fst (randbelow R g 8), snd (randbelow R g 8))"
      by (simp add: choice_def case_prod_beta)
    moreover from lt len have "satirical_angles ! fst (randbelow R g 8) \<in> set satirical_angles"
      by simp
    ultimately show ?thesis by simp
  qed
  have e: ?E
  proof (intro impI, elim conjE)
    assume n: "\<not> (contains ''trump'' (lower (title a)) \<or> contains ''president'' (lower (title a)))"
      "\<not> (contains ''health'' (lower (category a)) \<or> contains ''medical'' (lower (title a)))"
      "\<not> (contains ''business'' (lower (category a)) \<or> contains ''finance'' (lower (title a)))"
      "\<not> contains ''technology'' (lower (category a))"
    then have m: "mock_title R g a = choice R g satirical_angles"
      by (simp add: mock_title_def)
    with len draw show "mock_title R g a = choice R g satirical_angles
          \<and> length satirical_angles = 8
          \<and> (prng_ok R \<longrightarrow>
                mock_title R g a
                  = Inr (satirical_angles ! fst (randbelow R g 8), snd (randbelow R g 8))
                \<and> satirical_angles ! fst (randbelow R g 8) \<in> set satirical_angles)"
      by simp
  qed
  have f: ?F
  proof (intro allI impI)
    fix p q
    assume t: "title a = p @ ''President'' @ q"
    from contains_president[OF t] have "contains ''president'' (lower (title a))" .
    then have m: "mock_title R s a = Inr (political_headline, s)" for s
      by (simp add: mock_title_def)
    have tt: "map_of d ''title'' = Some political_headline"
      if mt: "mock_transformation R g0 a = Inr (d, g')" for g0 d g'
    proof -
      from mock_transformation_title[OF mt] obtain h g1
        where 1: "mock_title R (seed_state R (top32 (md5_digest R (encode (title a))))) a = Inr (h, g1)"
          and 2: "map_of d ''title'' = Some h" by blast
      from 1 m[of "seed_state R (top32 (md5_digest R (encode (title a))))"]
      have "h = political_headline" by simp
      with 2 show ?thesis by simp
    qed
    have ok: "\<exists>d g'. mock_transformation R g0 a = Inr (d, g')" if "prng_ok R" for g0
      using that by (rule mock_transformation_ok)
    show "mock_title R g a = Inr (political_headline, g)
          \<and> (\<forall>g0 d g'. mock_transformation R g0 a = Inr (d, g') \<longrightarrow>
                 map_of d ''title'' = Some political_headline)
          \<and> (prng_ok R \<longrightarrow> (\<forall>g0. \<exists>d g'. mock_transformation R g0 a = Inr (d, g')))"
    proof (intro conjI allI impI)
      show "mock_title R g a = Inr (political_headline, g)" by (rule m)
    next
      fix g0 d g' assume "mock_transformation R g0 a = Inr (d, g')"
      then show "map_of d ''title'' = Some political_headline" by (rule tt)
    next
      fix g0 assume "prng_ok R"
      then show "\<exists>d g'. mock_transformation R g0 a = Inr (d, g')" by (rule ok)
    qed
  qed
  from a b c d e f show ?thesis by (intro conjI)
qed

text \<open>The theorem at one article for each of the five branches.\<close>

theorem mock_title_precedence_witness:
  "mock_title example_runtime 3 (example_article ''President visits flood zone'' ''politics'')
     = Inr (''Local Man Discovers Politicians Still Doing Politics, Experts Stunned'', 3)
   \<and> mock_title example_runtime 3 (example_article ''Rain expected'' ''health'')
     = Inr (''Area Residents Shocked to Learn Bodies Still Require Maintenance'', 3)
   \<and> mock_title example_runtime 3 (example_article ''Rain expected'' ''business'')
     = Inr (''Money Continues to Exist Despite Public's Best Efforts to Ignore It'', 3)
   \<and> mock_title example_runtime 3 (example_article ''Rain expected'' ''technology'')
     = Inr (''Scientists Confirm: Computers Still Computing, Public Bewildered'', 3)
   \<and> mock_title example_runtime 1460069534 (example_article ''Rain expected'' ''world'')
     = Inr (''Experts Puzzled by Occurrence of Scheduled Event'', 730034768)"
proof -
  have t1: "lower ''President visits flood zone'' = ''president visits flood zone''"
    and t2: "lower ''Rain expected'' = ''rain expected''"
    by (simp_all add: text_eval)
  have c: "lower ''politics'' = ''politics''" "lower ''health'' = ''health''"
    "lower ''business'' = ''business''" "lower ''technology'' = ''technology''"
    "lower ''world'' = ''world''"
    by (simp_all add: text_eval)
  have p1: "contains ''president'' ''president visits flood zone''"
    by (simp add: startswith_def)
  have n2: "\<not> contains ''trump'' ''rain expected''" "\<not> contains ''president'' ''rain expected''"
    "\<not> contains ''medical'' ''rain expected''" "\<not> contains ''finance'' ''rain expected''"
    by (simp_all add: startswith_def)
  have k: "contains ''health'' ''health''" "\<not> contains ''health'' ''business''"
    "contains ''business'' ''business''" "\<not> contains ''health'' ''technology''"
    "\<not> contains ''business'' ''technology''" "contains ''technology'' ''technology''"
    "\<not> contains ''health'' ''world''" "\<not> contains ''business'' ''world''"
    "\<not> contains ''technology'' ''world''"
    by (simp_all add: startswith_def)
  have r: "randbelow example_runtime 1460069534 8 = (6, 730034768)"
    by (simp add: example_runtime_sel)
  have s6: "satirical_angles ! 6 = ''Experts Puzzled by Occurrence of Scheduled Event''"
    by (simp add: satirical_angles_def)
  from mock_title_precedence[of "example_article ''President visits flood zone'' ''politics''" example_runtime 3]
  have 1: "mock_title example_runtime 3 (example_article ''President visits flood zone'' ''politics'')
     = Inr (political_headline, 3)"
    by (simp add: example_article_sel t1 startswith_def)
  from mock_title_precedence[of "example_article ''Rain expected'' ''health''" example_runtime 3]
  have 2: "mock_title example_runtime 3 (example_article ''Rain expected'' ''health'') = Inr (health_headline, 3)"
    by (simp add: example_article_sel t2 c startswith_def)
  from mock_title_precedence[of "example_article ''Rain expected'' ''business''" example_runtime 3]
  have 3: "mock_title example_runtime 3 (example_article ''Rain expected'' ''business'') = Inr (business_headline, 3)"
    by (simp add: example_article_sel t2 c startswith_def)
  from mock_title_precedence[of "example_article ''Rain expected'' ''technology''" example_runtime 3]
  have 4: "mock_title example_runtime 3 (example_article ''Rain expected'' ''technology'') = Inr (technology_headline, 3)"
    by (simp add: example_article_sel t2 c startswith_def)
  from mock_title_precedence[of "example_article ''Rain expected'' ''world''" example_runtime 1460069534]
    prng_ok_example
  have 5: "mock_title example_runtime 1460069534 (example_article ''Rain expected'' ''world'')
     = Inr (''Experts Puzzled by Occurrence of Scheduled Event'', 730034768)"
    by (auto simp: example_article_sel t2 c startswith_def r s6)
  from 1 2 3 4 5 show ?thesis
    by (simp add: political_headline_def health_headline_def business_headline_def technology_headline_def)
qed

end
